theory Spec2Isabelle
  imports Complex_Main "HOL-Library.AList" "HOL-Library.Sublist"
begin

section \<open>Python values\<close>

text \<open>
  The pipeline passes parsed JSON between its stages.  A float is the exact rational it
  denotes, or one of the two infinities, or NaN.  A str is the list of the bytes of its
  UTF-8 encoding.  A dict is an association list in insertion order, read with
  \<open>map_of\<close>.
\<close>

datatype pyfloat = Finite rat | PosInf | NegInf | NaN

datatype json =
    JNull
  | JBool bool
  | JInt int
  | JFloat pyfloat
  | JStr string
  | JList "json list"
  | JDict "(string \<times> json) list"

type_synonym pydict = "(string \<times> json) list"

datatype pyexc = TypeError | ValueError | KeyError | AttributeError | OverflowError

text \<open>Sequencing of computations that may raise: the first exception wins.\<close>

definition exc_bind :: "pyexc + 'a \<Rightarrow> ('a \<Rightarrow> pyexc + 'b) \<Rightarrow> pyexc + 'b" where
  "exc_bind m f = (case m of Inl e \<Rightarrow> Inl e | Inr x \<Rightarrow> f x)"

text \<open>
  The Python runtime and pandas are not part of the repository; what the transformers
  ask of them is a parameter of the model:
  \<^item> \<open>float_of_str\<close>, \<open>int_of_str\<close>: \<open>float(s)\<close> and \<open>int(s)\<close> on a
    str, \<open>None\<close> for a str they reject with ValueError;
  \<^item> \<open>float_of_big\<close>: \<open>float(n)\<close> on an int beyond \<open>2 ^ 53\<close>, where the
    conversion rounds, \<open>None\<close> for an int it rejects with OverflowError;
  \<^item> \<open>to_numeric_str\<close>: the number \<open>pd.to_numeric\<close> reads from a str,
    \<open>None\<close> for a str it cannot read;
  \<^item> \<open>str_upper\<close>, \<open>str_capitalize\<close>: \<open>s.upper()\<close> and
    \<open>s.capitalize()\<close>, the case mappings of Unicode;
  \<^item> \<open>astype_int\<close>: the cast \<open>.astype(int)\<close> of a column of ints, given the
    column as the frame was built with and the column as it is cast; it raises, or
    gives the value of every cell after the cast.
\<close>

record pylib =
  float_of_str :: "string \<Rightarrow> pyfloat option"
  int_of_str :: "string \<Rightarrow> int option"
  float_of_big :: "int \<Rightarrow> pyfloat option"
  to_numeric_str :: "string \<Rightarrow> pyfloat option"
  str_upper :: "string \<Rightarrow> string"
  str_capitalize :: "string \<Rightarrow> string"
  astype_int :: "int list \<Rightarrow> int list \<Rightarrow> pyexc + (int \<Rightarrow> int)"

text \<open>\<open>d.get(k, default)\<close> and \<open>d[k]\<close> on a dict.\<close>

definition dict_get :: "pydict \<Rightarrow> string \<Rightarrow> json \<Rightarrow> json" where
  "dict_get d k dflt = (case map_of d k of Some v \<Rightarrow> v | None \<Rightarrow> dflt)"

definition dict_item :: "pydict \<Rightarrow> string \<Rightarrow> pyexc + json" where
  "dict_item d k = (case map_of d k of Some v \<Rightarrow> Inr v | None \<Rightarrow> Inl KeyError)"

text \<open>The same two operations on a value that need not be a dict.\<close>

fun json_get :: "json \<Rightarrow> string \<Rightarrow> json \<Rightarrow> pyexc + json" where
  "json_get (JDict d) k dflt = Inr (dict_get d k dflt)"
| "json_get _ k dflt = Inl AttributeError"

fun json_item :: "json \<Rightarrow> string \<Rightarrow> pyexc + json" where
  "json_item (JDict d) k = dict_item d k"
| "json_item _ k = Inl TypeError"

text \<open>
  The builtin \<open>float(v)\<close>.  An int of magnitude up to \<open>2 ^ 53\<close> is a binary64
  number and is converted exactly.
\<close>

fun py_float :: "pylib \<Rightarrow> json \<Rightarrow> pyexc + pyfloat" where
  "py_float L (JFloat x) = Inr x"
| "py_float L (JInt n) =
     (if \<bar>n\<bar> \<le> 2 ^ 53 then Inr (Finite (of_int n))
      else (case float_of_big L n of Some x \<Rightarrow> Inr x | None \<Rightarrow> Inl OverflowError))"
| "py_float L (JBool b) = Inr (Finite (if b then 1 else 0))"
| "py_float L (JStr s) = (case float_of_str L s of Some x \<Rightarrow> Inr x | None \<Rightarrow> Inl ValueError)"
| "py_float L _ = Inl TypeError"

text \<open>The builtin \<open>int(v)\<close>: a float is truncated towards zero.\<close>

definition trunc :: "rat \<Rightarrow> int" where
  "trunc q = (if 0 \<le> q then \<lfloor>q\<rfloor> else \<lceil>q\<rceil>)"

fun py_int :: "pylib \<Rightarrow> json \<Rightarrow> pyexc + int" where
  "py_int L (JInt n) = Inr n"
| "py_int L (JBool b) = Inr (if b then 1 else 0)"
| "py_int L (JFloat (Finite q)) = Inr (trunc q)"
| "py_int L (JFloat NaN) = Inl ValueError"
| "py_int L (JFloat _) = Inl OverflowError"
| "py_int L (JStr s) = (case int_of_str L s of Some n \<Rightarrow> Inr n | None \<Rightarrow> Inl ValueError)"
| "py_int L _ = Inl TypeError"

text \<open>\<open>v.replace('%', '')\<close>: every percent sign is removed; only a string has the method.\<close>

fun strip_percent :: "json \<Rightarrow> pyexc + string" where
  "strip_percent (JStr s) = Inr (filter (\<lambda>c. c \<noteq> CHR ''%'') s)"
| "strip_percent _ = Inl AttributeError"

text \<open>\<open>v.upper()\<close> and \<open>v.capitalize()\<close>: only a str has the methods.\<close>

fun json_upper :: "pylib \<Rightarrow> json \<Rightarrow> pyexc + string" where
  "json_upper L (JStr s) = Inr (str_upper L s)"
| "json_upper L _ = Inl AttributeError"

fun json_capitalize :: "pylib \<Rightarrow> json \<Rightarrow> pyexc + string" where
  "json_capitalize L (JStr s) = Inr (str_capitalize L s)"
| "json_capitalize L _ = Inl AttributeError"

section \<open>Clock and frames\<close>

text \<open>
  \<open>datetime.now()\<close> reads the system clock.  A clock gives the reading returned
  by the k-th call made during one application of a transformer.
\<close>

type_synonym datetime = int
type_synonym clock = "nat \<Rightarrow> datetime"

text \<open>
  A pandas frame: its column labels and its rows.  \<open>pd.DataFrame()\<close> and
  \<open>pd.DataFrame([])\<close> have neither; a frame built from a non-empty list of dicts
  has the dicts' keys as columns.  \<open>df.empty\<close> holds when either axis has length 0.
\<close>

record 'r frame =
  columns :: "string list"
  rows :: "'r list"

definition DataFrame :: "string list \<Rightarrow> 'r list \<Rightarrow> 'r frame" where
  "DataFrame cols rs = (if rs = [] then \<lparr>columns = [], rows = []\<rparr> else \<lparr>columns = cols, rows = rs\<rparr>)"

definition empty_frame :: "'r frame" where
  "empty_frame = \<lparr>columns = [], rows = []\<rparr>"

definition is_empty :: "'r frame \<Rightarrow> bool" where
  "is_empty df = (columns df = [] \<or> rows df = [])"

text \<open>\<open>pd.isna\<close> on a cell of an object column and on a float.\<close>

fun isna :: "json \<Rightarrow> bool" where
  "isna JNull = True"
| "isna (JFloat NaN) = True"
| "isna _ = False"

definition fillna0 :: "pyfloat \<Rightarrow> pyfloat" where
  "fillna0 x = (if x = NaN then Finite 0 else x)"

section \<open>Transformers\<close>

subsection \<open>StocksTransformer.transform\<close>

text \<open>
  The dict appended to \<open>all_stocks\<close> for one quote.  The change-percent cell is
  still a string here; the quality pass makes it numeric.
\<close>

record stock_raw =
  sr_symbol :: json
  sr_price :: pyfloat
  sr_open :: pyfloat
  sr_high :: pyfloat
  sr_low :: pyfloat
  sr_volume :: int
  sr_latest_trading_day :: json
  sr_previous_close :: pyfloat
  sr_change :: pyfloat
  sr_change_percent :: string
  sr_timestamp :: datetime
  sr_extracted_at :: datetime

record stock_row =
  st_symbol :: json
  st_price :: pyfloat
  st_open :: pyfloat
  st_high :: pyfloat
  st_low :: pyfloat
  st_volume :: int
  st_latest_trading_day :: json
  st_previous_close :: pyfloat
  st_change :: pyfloat
  st_change_percent :: pyfloat
  st_timestamp :: datetime
  st_extracted_at :: datetime

definition stock_columns :: "string list" where
  "stock_columns = [''symbol'', ''price'', ''open'', ''high'', ''low'', ''volume'',
     ''latest_trading_day'', ''previous_close'', ''change'', ''change_percent'',
     ''timestamp'', ''extracted_at'']"

text \<open>
  The body of the \<open>try\<close> block: the dict display is evaluated entry by entry, so
  the clock is read only after every conversion has succeeded.  \<open>k\<close> counts the
  readings taken so far.
\<close>

definition stock_record :: "pylib \<Rightarrow> clock \<Rightarrow> nat \<Rightarrow> json \<Rightarrow> json \<Rightarrow> pyexc + stock_raw" where
  "stock_record L now k symbol quote =
     exc_bind (exc_bind (json_get quote ''05. price'' (JInt 0)) (py_float L)) (\<lambda>price.
     exc_bind (exc_bind (json_get quote ''02. open'' (JInt 0)) (py_float L)) (\<lambda>opn.
     exc_bind (exc_bind (json_get quote ''03. high'' (JInt 0)) (py_float L)) (\<lambda>high.
     exc_bind (exc_bind (json_get quote ''04. low'' (JInt 0)) (py_float L)) (\<lambda>low.
     exc_bind (exc_bind (json_get quote ''06. volume'' (JInt 0)) (py_int L)) (\<lambda>volume.
     exc_bind (json_get quote ''07. latest trading day'' JNull) (\<lambda>day.
     exc_bind (exc_bind (json_get quote ''08. previous close'' (JInt 0)) (py_float L)) (\<lambda>prev.
     exc_bind (exc_bind (json_get quote ''09. change'' (JInt 0)) (py_float L)) (\<lambda>change.
     exc_bind (exc_bind (json_get quote ''10. change percent'' (JStr [])) strip_percent) (\<lambda>pct.
       Inr \<lparr>sr_symbol = symbol, sr_price = price, sr_open = opn, sr_high = high,
            sr_low = low, sr_volume = volume, sr_latest_trading_day = day,
            sr_previous_close = prev, sr_change = change, sr_change_percent = pct,
            sr_timestamp = now k, sr_extracted_at = now (k + 1)\<rparr>)))))))))"

text \<open>
  The loop over \<open>stocks_data\<close>.  The two subscripts stand before the \<open>try\<close>,
  so a missing key there leaves the function; inside it only ValueError and KeyError
  are caught.
\<close>

fun stocks_loop :: "pylib \<Rightarrow> clock \<Rightarrow> nat \<Rightarrow> pydict list \<Rightarrow> stock_raw list \<Rightarrow> pyexc + stock_raw list" where
  "stocks_loop L now k [] all_stocks = Inr all_stocks"
| "stocks_loop L now k (stock # rest) all_stocks =
     exc_bind (dict_item stock ''symbol'') (\<lambda>symbol.
     exc_bind (dict_item stock ''data'') (\<lambda>quote.
       (case stock_record L now k symbol quote of
          Inr entry \<Rightarrow> stocks_loop L now (k + 2) rest (all_stocks @ [entry])
        | Inl e \<Rightarrow>
            if e = ValueError \<or> e = KeyError then stocks_loop L now k rest all_stocks
            else Inl e)))"

text \<open>
  The quality pass on a non-empty frame: \<open>dropna(subset=['symbol', 'price'])\<close>,
  the cast of the \<open>volume\<close> column, which may raise, and
  \<open>pd.to_numeric(..., errors='coerce').fillna(0)\<close> on the change-percent column.
  The cast of \<open>price\<close> leaves a column of floats as it is, and \<open>fillna(0)\<close>
  a column of ints.
\<close>

definition stock_keep :: "stock_raw \<Rightarrow> bool" where
  "stock_keep r = (\<not> isna (sr_symbol r) \<and> sr_price r \<noteq> NaN)"

definition to_numeric_coerce :: "pylib \<Rightarrow> string \<Rightarrow> pyfloat" where
  "to_numeric_coerce L s = (case to_numeric_str L s of Some x \<Rightarrow> x | None \<Rightarrow> NaN)"

definition stock_final :: "pylib \<Rightarrow> (int \<Rightarrow> int) \<Rightarrow> stock_raw \<Rightarrow> stock_row" where
  "stock_final L cast r =
     \<lparr>st_symbol = sr_symbol r, st_price = sr_price r, st_open = sr_open r,
      st_high = sr_high r, st_low = sr_low r, st_volume = cast (sr_volume r),
      st_latest_trading_day = sr_latest_trading_day r,
      st_previous_close = sr_previous_close r, st_change = sr_change r,
      st_change_percent = fillna0 (to_numeric_coerce L (sr_change_percent r)),
      st_timestamp = sr_timestamp r, st_extracted_at = sr_extracted_at r\<rparr>"

text \<open>
  \<open>stocks_data\<close> is annotated \<open>List[Dict]\<close>; \<open>None\<close> stands for a null
  argument, on which the \<open>for\<close> statement raises TypeError.
\<close>

definition stocks_transform :: "pylib \<Rightarrow> clock \<Rightarrow> pydict list option \<Rightarrow> pyexc + stock_row frame" where
  "stocks_transform L now stocks_data =
     (case stocks_data of
        None \<Rightarrow> Inl TypeError
      | Some xs \<Rightarrow>
          exc_bind (stocks_loop L now 0 xs []) (\<lambda>all_stocks.
            if is_empty (DataFrame stock_columns all_stocks) then Inr empty_frame
            else
              exc_bind (astype_int L (map sr_volume all_stocks)
                          (map sr_volume (filter stock_keep all_stocks))) (\<lambda>cast.
                Inr \<lparr>columns = stock_columns,
                     rows = map (stock_final L cast) (filter stock_keep all_stocks)\<rparr>)))"

subsection \<open>CryptoTransformer.transform\<close>

record crypto_row =
  cr_symbol :: string
  cr_name :: json
  cr_current_price :: pyfloat
  cr_market_cap :: pyfloat
  cr_total_volume :: pyfloat
  cr_price_change_24h :: pyfloat
  cr_timestamp :: datetime
  cr_extracted_at :: datetime

definition crypto_columns :: "string list" where
  "crypto_columns = [''symbol'', ''name'', ''current_price'', ''market_cap'',
     ''total_volume'', ''price_change_24h'', ''timestamp'', ''extracted_at'']"

text \<open>
  The detailed shape: the record has a \<open>market_data\<close> key.  The three nested
  subscripts raise KeyError on a missing key and TypeError on a value that cannot be
  subscripted by a string.
\<close>

definition crypto_detailed :: "pylib \<Rightarrow> clock \<Rightarrow> nat \<Rightarrow> pydict \<Rightarrow> pyexc + crypto_row" where
  "crypto_detailed L now k crypto =
     exc_bind (json_upper L (dict_get crypto ''symbol'' (JStr []))) (\<lambda>symbol.
     exc_bind (exc_bind (exc_bind (exc_bind (dict_item crypto ''market_data'')
         (\<lambda>md. json_item md ''current_price'')) (\<lambda>d. json_get d ''usd'' (JInt 0))) (py_float L)) (\<lambda>price.
     exc_bind (exc_bind (exc_bind (exc_bind (dict_item crypto ''market_data'')
         (\<lambda>md. json_item md ''market_cap'')) (\<lambda>d. json_get d ''usd'' (JInt 0))) (py_float L)) (\<lambda>cap.
     exc_bind (exc_bind (exc_bind (exc_bind (dict_item crypto ''market_data'')
         (\<lambda>md. json_item md ''total_volume'')) (\<lambda>d. json_get d ''usd'' (JInt 0))) (py_float L)) (\<lambda>vol.
     exc_bind (exc_bind (exc_bind (dict_item crypto ''market_data'')
         (\<lambda>md. json_get md ''price_change_percentage_24h'' (JInt 0))) (py_float L)) (\<lambda>chg.
       Inr \<lparr>cr_symbol = symbol, cr_name = dict_get crypto ''name'' JNull,
            cr_current_price = price, cr_market_cap = cap, cr_total_volume = vol,
            cr_price_change_24h = chg,
            cr_timestamp = now k, cr_extracted_at = now (k + 1)\<rparr>)))))"

text \<open>
  The simple and the markets shape.  Both arguments of a \<open>get\<close> are evaluated
  before the call, the inner \<open>get\<close> and \<open>coin_id.capitalize()\<close> included.
\<close>

definition get2 :: "json \<Rightarrow> string \<Rightarrow> string \<Rightarrow> pyexc + json" where
  "get2 d k1 k2 = exc_bind (json_get d k2 (JInt 0)) (\<lambda>inner. json_get d k1 inner)"

definition crypto_simple :: "pylib \<Rightarrow> clock \<Rightarrow> nat \<Rightarrow> pydict \<Rightarrow> pyexc + crypto_row" where
  "crypto_simple L now k crypto =
     (let coin_id = dict_get crypto ''id'' (JStr []);
          d = dict_get crypto ''data'' (JDict crypto)
      in
      exc_bind (json_upper L (dict_get crypto ''symbol'' coin_id)) (\<lambda>symbol.
      exc_bind (json_capitalize L coin_id) (\<lambda>cap_id.
      exc_bind (exc_bind (get2 d ''usd'' ''current_price'') (py_float L)) (\<lambda>price.
      exc_bind (exc_bind (get2 d ''usd_market_cap'' ''market_cap'') (py_float L)) (\<lambda>cap.
      exc_bind (exc_bind (get2 d ''usd_24h_vol'' ''total_volume'') (py_float L)) (\<lambda>vol.
      exc_bind (exc_bind (get2 d ''usd_24h_change'' ''price_change_percentage_24h'') (py_float L)) (\<lambda>chg.
        Inr \<lparr>cr_symbol = symbol, cr_name = dict_get crypto ''name'' (JStr cap_id),
             cr_current_price = price, cr_market_cap = cap, cr_total_volume = vol,
             cr_price_change_24h = chg,
             cr_timestamp = now k, cr_extracted_at = now (k + 1)\<rparr>)))))))"

definition crypto_record :: "pylib \<Rightarrow> clock \<Rightarrow> nat \<Rightarrow> pydict \<Rightarrow> pyexc + crypto_row" where
  "crypto_record L now k crypto =
     (if map_of crypto ''market_data'' \<noteq> None then crypto_detailed L now k crypto
      else crypto_simple L now k crypto)"

fun crypto_loop :: "pylib \<Rightarrow> clock \<Rightarrow> nat \<Rightarrow> pydict list \<Rightarrow> crypto_row list \<Rightarrow> pyexc + crypto_row list" where
  "crypto_loop L now k [] all_crypto = Inr all_crypto"
| "crypto_loop L now k (crypto # rest) all_crypto =
     (case crypto_record L now k crypto of
        Inr entry \<Rightarrow> crypto_loop L now (k + 2) rest (all_crypto @ [entry])
      | Inl e \<Rightarrow>
          if e = ValueError \<or> e = KeyError \<or> e = TypeError
          then crypto_loop L now k rest all_crypto
          else Inl e)"

text \<open>
  The quality pass: \<open>dropna(subset=['symbol', 'current_price'])\<close> (the symbol is a
  string, never missing), then \<open>fillna(0)\<close> on \<open>market_cap\<close> and
  \<open>price_change_24h\<close>.
\<close>

definition crypto_keep :: "crypto_row \<Rightarrow> bool" where
  "crypto_keep r = (cr_current_price r \<noteq> NaN)"

definition crypto_final :: "crypto_row \<Rightarrow> crypto_row" where
  "crypto_final r = r\<lparr>cr_market_cap := fillna0 (cr_market_cap r),
                        cr_price_change_24h := fillna0 (cr_price_change_24h r)\<rparr>"

definition crypto_transform :: "pylib \<Rightarrow> clock \<Rightarrow> pydict list option \<Rightarrow> pyexc + crypto_row frame" where
  "crypto_transform L now crypto_data =
     (case crypto_data of
        None \<Rightarrow> Inr empty_frame
      | Some xs \<Rightarrow>
          if xs = [] then Inr empty_frame
          else
            exc_bind (crypto_loop L now 0 xs []) (\<lambda>all_crypto.
              if is_empty (DataFrame crypto_columns all_crypto) then Inr empty_frame
              else Inr \<lparr>columns = crypto_columns,
                        rows = map crypto_final (filter crypto_keep all_crypto)\<rparr>))"

subsection \<open>ForexTransformer.transform\<close>

record forex_row =
  fx_base_currency :: json
  fx_target_currency :: string
  fx_exchange_rate :: pyfloat
  fx_rate_date :: json
  fx_timestamp :: datetime
  fx_extracted_at :: datetime

definition forex_columns :: "string list" where
  "forex_columns = [''base_currency'', ''target_currency'', ''exchange_rate'',
     ''rate_date'', ''timestamp'', ''extracted_at'']"

definition forex_record :: "pylib \<Rightarrow> clock \<Rightarrow> nat \<Rightarrow> json \<Rightarrow> json \<Rightarrow> string \<Rightarrow> json \<Rightarrow> pyexc + forex_row" where
  "forex_record L now k base_currency rate_date target_currency exchange_rate =
     exc_bind (py_float L exchange_rate) (\<lambda>rate.
       Inr \<lparr>fx_base_currency = base_currency, fx_target_currency = target_currency,
            fx_exchange_rate = rate, fx_rate_date = rate_date,
            fx_timestamp = now k, fx_extracted_at = now (k + 1)\<rparr>)"

fun forex_loop :: "pylib \<Rightarrow> clock \<Rightarrow> nat \<Rightarrow> json \<Rightarrow> json \<Rightarrow> pydict \<Rightarrow> forex_row list \<Rightarrow> pyexc + forex_row list" where
  "forex_loop L now k base_currency rate_date [] all_rates = Inr all_rates"
| "forex_loop L now k base_currency rate_date ((target_currency, exchange_rate) # rest) all_rates =
     (case forex_record L now k base_currency rate_date target_currency exchange_rate of
        Inr entry \<Rightarrow> forex_loop L now (k + 2) base_currency rate_date rest (all_rates @ [entry])
      | Inl e \<Rightarrow>
          if e = ValueError \<or> e = TypeError
          then forex_loop L now k base_currency rate_date rest all_rates
          else Inl e)"

text \<open>\<open>rates.items()\<close>: only a dict has the method.\<close>

fun json_items :: "json \<Rightarrow> pyexc + pydict" where
  "json_items (JDict d) = Inr d"
| "json_items _ = Inl AttributeError"

definition forex_keep :: "forex_row \<Rightarrow> bool" where
  "forex_keep r = (\<not> isna (fx_base_currency r) \<and> fx_exchange_rate r \<noteq> NaN)"

definition forex_transform :: "pylib \<Rightarrow> clock \<Rightarrow> pydict option \<Rightarrow> pyexc + forex_row frame" where
  "forex_transform L now forex_data =
     (case forex_data of
        None \<Rightarrow> Inr empty_frame
      | Some fd \<Rightarrow>
          if fd = [] \<or> map_of fd ''rates'' = None then Inr empty_frame
          else
            exc_bind (dict_item fd ''base'') (\<lambda>base_currency.
            exc_bind (dict_item fd ''rates'') (\<lambda>rates.
            exc_bind (json_items rates) (\<lambda>items.
            exc_bind (forex_loop L now 0 base_currency (dict_get fd ''date'' JNull) items []) (\<lambda>all_rates.
              if is_empty (DataFrame forex_columns all_rates) then Inr empty_frame
              else Inr \<lparr>columns = forex_columns,
                        rows = filter forex_keep all_rates\<rparr>)))))"

section \<open>Extractors\<close>

text \<open>
  \<open>BaseExtractor.get\<close> is not among the sources.  It is a parameter of the
  model: the answer to a request is the parsed JSON object of the provider, or
  \<open>None\<close> when the fetch failed; it does not raise.
\<close>

text \<open>Truth value of a Python object, as \<open>if v:\<close> tests it.\<close>

fun truthy :: "json \<Rightarrow> bool" where
  "truthy JNull = False"
| "truthy (JBool b) = b"
| "truthy (JInt n) = (n \<noteq> 0)"
| "truthy (JFloat x) = (x \<noteq> Finite 0)"
| "truthy (JStr s) = (s \<noteq> [])"
| "truthy (JList xs) = (xs \<noteq> [])"
| "truthy (JDict d) = (d \<noteq> [])"

subsection \<open>StocksExtractor\<close>

text \<open>
  What the extractor does to the outside world: an HTTP fetch for a symbol, or a
  blocking pause.  The answer of the provider may depend on the events so far.
\<close>

datatype event = Fetch string | Sleep int

type_synonym stocks_get = "event list \<Rightarrow> (string \<times> string) list \<Rightarrow> pydict option"

definition quote_params :: "string \<Rightarrow> string \<Rightarrow> (string \<times> string) list" where
  "quote_params api_key symbol =
     [(''function'', ''GLOBAL_QUOTE''), (''symbol'', symbol), (''apikey'', api_key)]"

text \<open>
  \<open>extract_stock_price\<close>: one fetch; the quote is returned under the requested
  symbol when the answer has a non-empty \<open>Global Quote\<close>.  An empty answer has no
  key, so the test \<open>data and 'Global Quote' in data\<close> is the lookup of the key.
\<close>

definition extract_stock_price :: "string \<Rightarrow> stocks_get \<Rightarrow> string \<Rightarrow> event list \<Rightarrow> pydict option \<times> event list" where
  "extract_stock_price api_key get symbol tr =
     (let data = get tr (quote_params api_key symbol);
          tr' = tr @ [Fetch symbol]
      in case data of
           None \<Rightarrow> (None, tr')
         | Some d \<Rightarrow>
             (case map_of d ''Global Quote'' of
                None \<Rightarrow> (None, tr')
              | Some quote \<Rightarrow>
                  if truthy quote
                  then (Some [(''symbol'', JStr symbol), (''data'', quote)], tr')
                  else (None, tr')))"

text \<open>
  \<open>time.sleep(secs)\<close> on an int, in CPython on a 64-bit platform: the length is
  converted to nanoseconds in a signed 64-bit integer, which overflows beyond
  9223372036 seconds in either direction (OverflowError); a negative length that
  converts is rejected with ValueError.  \<open>None\<close>: the call returns after the pause.
\<close>

definition time_sleep :: "int \<Rightarrow> pyexc option" where
  "time_sleep secs =
     (if secs < - 9223372036 \<or> 9223372036 < secs then Some OverflowError
      else if secs < 0 then Some ValueError
      else None)"

text \<open>
  The loop of \<open>extract_multiple_stocks\<close> over \<open>enumerate(symbols)\<close>:
  \<open>n\<close> is \<open>len(symbols)\<close>, \<open>i\<close> the index of the next symbol.  An exception
  of \<open>time.sleep\<close> leaves the method, and the quotes collected so far are lost.
\<close>

fun extract_loop :: "string \<Rightarrow> stocks_get \<Rightarrow> int \<Rightarrow> nat \<Rightarrow> nat \<Rightarrow> string list \<Rightarrow> pydict list \<Rightarrow> event list
    \<Rightarrow> (pyexc + pydict list) \<times> event list" where
  "extract_loop api_key get delay n i [] results tr = (Inr results, tr)"
| "extract_loop api_key get delay n i (symbol # rest) results tr =
     (case extract_stock_price api_key get symbol tr of
        (data, tr1) \<Rightarrow>
          let results1 = (case data of
                            Some d \<Rightarrow> if d \<noteq> [] then results @ [d] else results
                          | None \<Rightarrow> results)
          in if int i < int n - 1
             then (case time_sleep delay of
                     Some e \<Rightarrow> (Inl e, tr1)
                   | None \<Rightarrow> extract_loop api_key get delay n (i + 1) rest results1 (tr1 @ [Sleep delay]))
             else extract_loop api_key get delay n (i + 1) rest results1 tr1)"

text \<open>The argument \<open>delay\<close> is optional and defaults to 12.\<close>

definition extract_multiple_stocks :: "string \<Rightarrow> stocks_get \<Rightarrow> string list \<Rightarrow> int option \<Rightarrow> event list
    \<Rightarrow> (pyexc + pydict list) \<times> event list" where
  "extract_multiple_stocks api_key get symbols delay_arg tr =
     extract_loop api_key get (case delay_arg of None \<Rightarrow> 12 | Some d \<Rightarrow> d)
       (length symbols) 0 symbols [] tr"

text \<open>
  The schedule the specification asks for, to compare the loop with: one fetch per
  symbol, a pause between two fetches, none after the last.
\<close>

fun paced :: "int \<Rightarrow> string list \<Rightarrow> event list" where
  "paced d [] = []"
| "paced d [s] = [Fetch s]"
| "paced d (s # t # rest) = Fetch s # Sleep d # paced d (t # rest)"



subsection \<open>ForexExtractor\<close>

text \<open>\<open>k in v\<close> for a string \<open>k\<close>: key of a dict, element of a list, substring of a string.\<close>

fun json_contains :: "json \<Rightarrow> string \<Rightarrow> pyexc + bool" where
  "json_contains (JDict d) k = Inr (map_of d k \<noteq> None)"
| "json_contains (JList xs) k = Inr (JStr k \<in> set xs)"
| "json_contains (JStr s) k = Inr (sublist k s)"
| "json_contains _ k = Inl TypeError"

text \<open>
  The dict comprehension over \<open>target_currencies\<close>: a currency that is in the
  provider's rates is stored under its code, the others are passed over.
\<close>

fun filter_rates :: "json \<Rightarrow> string list \<Rightarrow> pydict \<Rightarrow> pyexc + pydict" where
  "filter_rates rates [] acc = Inr acc"
| "filter_rates rates (currency # rest) acc =
     exc_bind (json_contains rates currency) (\<lambda>present.
       if present
       then exc_bind (json_get rates currency JNull) (\<lambda>v.
              filter_rates rates rest (AList.update currency v acc))
       else filter_rates rates rest acc)"

type_synonym forex_get = "string \<Rightarrow> pydict option"

definition extract_exchange_rates :: "forex_get \<Rightarrow> string \<Rightarrow> string list \<Rightarrow> pyexc + pydict option" where
  "extract_exchange_rates get base_currency target_currencies =
     (case get base_currency of
        None \<Rightarrow> Inr None
      | Some data \<Rightarrow>
          (case map_of data ''rates'' of
             None \<Rightarrow> Inr None
           | Some rates \<Rightarrow>
               exc_bind (filter_rates rates target_currencies []) (\<lambda>filtered.
                 Inr (Some [(''base'', JStr base_currency),
                            (''date'', dict_get data ''date'' JNull),
                            (''rates'', JDict filtered)]))))"

section \<open>Loader\<close>

text \<open>
  \<open>df.to_sql(name, engine, if_exists='append', index=False)\<close> belongs to pandas and
  the database engine: it is a parameter.  It answers with the exception it raised,
  if any, and with the store it left behind.
\<close>

type_synonym ('r, 'db, 'e) to_sql = "string \<Rightarrow> 'r frame \<Rightarrow> 'db \<Rightarrow> 'e option \<times> 'db"

definition load_stocks :: "('r, 'db, 'e) to_sql \<Rightarrow> 'r frame \<Rightarrow> 'db \<Rightarrow> ('e + nat) \<times> 'db" where
  "load_stocks to_sql df db =
     (if is_empty df then (Inr 0, db)
      else (case to_sql ''stocks'' df db of
              (None, db') \<Rightarrow> (Inr (length (rows df)), db')
            | (Some e, db') \<Rightarrow> (Inl e, db')))"

definition load_crypto :: "('r, 'db, 'e) to_sql \<Rightarrow> 'r frame \<Rightarrow> 'db \<Rightarrow> ('e + nat) \<times> 'db" where
  "load_crypto to_sql df db =
     (if is_empty df then (Inr 0, db)
      else (case to_sql ''crypto'' df db of
              (None, db') \<Rightarrow> (Inr (length (rows df)), db')
            | (Some e, db') \<Rightarrow> (Inl e, db')))"

definition load_forex :: "('r, 'db, 'e) to_sql \<Rightarrow> 'r frame \<Rightarrow> 'db \<Rightarrow> ('e + nat) \<times> 'db" where
  "load_forex to_sql df db =
     (if is_empty df then (Inr 0, db)
      else (case to_sql ''forex'' df db of
              (None, db') \<Rightarrow> (Inr (length (rows df)), db')
            | (Some e, db') \<Rightarrow> (Inl e, db')))"

section \<open>Comparing frames up to the clock\<close>

text \<open>
  Two rows are compared up to their \<open>timestamp\<close> and \<open>extracted_at\<close> cells by
  setting both cells to 0.
\<close>

definition sr_untimed :: "stock_raw \<Rightarrow> stock_raw" where
  "sr_untimed r = r\<lparr>sr_timestamp := 0, sr_extracted_at := 0\<rparr>"

definition st_untimed :: "stock_row \<Rightarrow> stock_row" where
  "st_untimed r = r\<lparr>st_timestamp := 0, st_extracted_at := 0\<rparr>"

definition cr_untimed :: "crypto_row \<Rightarrow> crypto_row" where
  "cr_untimed r = r\<lparr>cr_timestamp := 0, cr_extracted_at := 0\<rparr>"

definition fx_untimed :: "forex_row \<Rightarrow> forex_row" where
  "fx_untimed r = r\<lparr>fx_timestamp := 0, fx_extracted_at := 0\<rparr>"

definition untimed :: "('r \<Rightarrow> 'r) \<Rightarrow> pyexc + 'r frame \<Rightarrow> pyexc + 'r frame" where
  "untimed f res = map_sum id (\<lambda>df. df\<lparr>rows := map f (rows df)\<rparr>) res"

section \<open>The records that leave a row\<close>



definition crypto_has_row :: "pylib \<Rightarrow> pydict \<Rightarrow> bool" where
  "crypto_has_row L crypto =
     (case crypto_record L (\<lambda>k. 0) 0 crypto of
        Inr entry \<Rightarrow> crypto_keep entry
      | Inl e \<Rightarrow> False)"

section \<open>Sample environment\<close>

text \<open>
  Concrete parameters for the examples below.  The examples are in ASCII, where the
  case mappings exchange the letters \<open>a\<close> to \<open>z\<close> and \<open>A\<close> to \<open>Z\<close> and leave
  every other character as it is.
\<close>

definition ascii_upper_char :: "char \<Rightarrow> char" where
  "ascii_upper_char c = (let n = (of_char c :: nat) in
     if 97 \<le> n \<and> n \<le> 122 then char_of (n - 32) else c)"

definition ascii_lower_char :: "char \<Rightarrow> char" where
  "ascii_lower_char c = (let n = (of_char c :: nat) in
     if 65 \<le> n \<and> n \<le> 90 then char_of (n + 32) else c)"

definition ascii_upper :: "string \<Rightarrow> string" where
  "ascii_upper s = map ascii_upper_char s"

fun ascii_capitalize :: "string \<Rightarrow> string" where
  "ascii_capitalize [] = []"
| "ascii_capitalize (c # cs) = ascii_upper_char c # map ascii_lower_char cs"

text \<open>
  A library that parses the three numerals the examples contain and rejects every other
  string, is asked about no int beyond \<open>2 ^ 53\<close>, maps the case of ASCII, and casts a
  column of ints that fit 64 bits, which the cast leaves as they are.  A clock that
  starts at \<open>t\<close> and advances by one at each reading.  A store that counts the rows
  of each table and has no room for the table \<open>forex\<close>.
\<close>

definition sample_lib :: pylib where
  "sample_lib =
     \<lparr>float_of_str = [''150.00'' \<mapsto> Finite 150],
      int_of_str = [''1000000'' \<mapsto> 1000000],
      float_of_big = (\<lambda>n. None),
      to_numeric_str = [''1.23'' \<mapsto> Finite (123 / 100)],
      str_upper = ascii_upper,
      str_capitalize = ascii_capitalize,
      astype_int = (\<lambda>built column. Inr (\<lambda>v. v))\<rparr>"

definition clock_from :: "datetime \<Rightarrow> clock" where
  "clock_from t = (\<lambda>k. t + int k)"

definition sample_to_sql :: "('r, string \<Rightarrow> nat, string) to_sql" where
  "sample_to_sql name df db =
     (if name = ''forex'' then (Some ''disk full'', db)
      else (None, db(name := db name + length (rows df))))"

text \<open>
  A forex provider that knows the euro only, and a stocks provider that has a quote
  for \<open>AAPL\<close>, an empty quote for \<open>MSFT\<close>, a note in place of the quote for
  \<open>IBM\<close> and no answer for other symbols.
\<close>

definition sample_forex_get :: forex_get where
  "sample_forex_get b =
     Some [(''base'', JStr b), (''date'', JStr ''2024-01-15''),
           (''rates'', JDict [(''EUR'', JFloat (Finite (92 / 100)))])]"

definition sample_stocks_get :: stocks_get where
  "sample_stocks_get tr params =
     (if map_of params ''symbol'' = Some ''AAPL''
      then Some [(''Global Quote'', JDict [(''05. price'', JStr ''150.00'')])]
      else if map_of params ''symbol'' = Some ''MSFT''
      then Some [(''Global Quote'', JDict [])]
      else if map_of params ''symbol'' = Some ''IBM''
      then Some [(''Note'', JStr ''call frequency'')]
      else None)"


text \<open>
  Crypto records.  Of the detailed shape: one that has an id and no symbol, one whose
  \<open>market_data\<close> has no \<open>current_price\<close>, and one whose \<open>current_price\<close>
  has no \<open>usd\<close>.  Of the simple shape: one that has an id and nothing else.  Of the
  markets shape: two coins.
\<close>

definition sample_detailed :: pydict where
  "sample_detailed =
     [(''id'', JStr ''bitcoin''),
      (''market_data'', JDict [(''current_price'', JDict [(''usd'', JInt 45000)]),
                               (''market_cap'', JDict []),
                               (''total_volume'', JDict [])])]"

definition sample_no_nested_price :: pydict where
  "sample_no_nested_price =
     [(''symbol'', JStr ''eth''), (''market_data'', JDict [(''market_cap'', JDict [])])]"

definition sample_no_usd :: pydict where
  "sample_no_usd =
     [(''symbol'', JStr ''ada''),
      (''market_data'', JDict [(''current_price'', JDict [(''eur'', JInt 2)]),
                               (''market_cap'', JDict []),
                               (''total_volume'', JDict [])])]"

definition sample_id_only :: pydict where
  "sample_id_only = [(''id'', JStr ''bitcoin'')]"

definition sample_markets :: "pydict list" where
  "sample_markets =
     [[(''id'', JStr ''bitcoin''), (''symbol'', JStr ''btc''), (''name'', JStr ''Bitcoin''),
       (''current_price'', JInt 45000)],
      [(''id'', JStr ''ethereum''), (''symbol'', JStr ''eth''), (''name'', JStr ''Ethereum''),
       (''current_price'', JInt 2500)]]"

section \<open>Basic facts\<close>

lemma exc_bind_Inr [simp]: "exc_bind (Inr x) f = f x"
  by (simp add: exc_bind_def)

lemma exc_bind_Inl [simp]: "exc_bind (Inl e) f = Inl e"
  by (simp add: exc_bind_def)


lemma exc_bind_cong_map:
  "(\<And>x. map_sum id h (f x) = map_sum id h (g x)) \<Longrightarrow>
   map_sum id h (exc_bind m f) = map_sum id h (exc_bind m g)"
  by (cases m) simp_all

lemma rel_step:
  assumes "map_sum id h a = map_sum id h b"
  obtains (raise) e where "a = Inl e" "b = Inl e"
        | (ok) x y where "a = Inr x" "b = Inr y" "h x = h y"
  using assms by (cases a; cases b) simp_all

lemma map_eq_Nil_iff: "map f xs = map f ys \<Longrightarrow> xs = [] \<longleftrightarrow> ys = []"
  by (cases xs; cases ys) simp_all

section \<open>Empty and null input of the transformers\<close>

text \<open>
  C1, as the code has it: the crypto and the forex transformer return the empty frame
  on a null and on an empty input, and the stocks transformer returns it on the empty
  list.  (A null argument is outside the stocks transformer's input type
  \<open>List[Dict]\<close>; the next theorem shows what happens there.)
\<close>

theorem transform_empty_input:
  "stocks_transform L now (Some []) = Inr empty_frame \<and>
   crypto_transform L now None = Inr empty_frame \<and>
   crypto_transform L now (Some []) = Inr empty_frame \<and>
   forex_transform L now None = Inr empty_frame \<and>
   forex_transform L now (Some []) = Inr empty_frame \<and>
   rows (empty_frame :: stock_row frame) = [] \<and>
   rows (empty_frame :: crypto_row frame) = [] \<and>
   rows (empty_frame :: forex_row frame) = []"
  by (simp add: stocks_transform_def crypto_transform_def forex_transform_def
      DataFrame_def is_empty_def empty_frame_def)

text \<open>
  C1 as stated fails for the stocks transformer: on a null input its \<open>for\<close>
  statement raises TypeError.
\<close>

theorem stocks_transform_null_raises:
  "stocks_transform sample_lib (clock_from 0) None = Inl TypeError"
  by (simp add: stocks_transform_def)

section \<open>Loader\<close>

text \<open>
  C6: on a non-empty frame each load method performs the write; when the write
  raises, the method raises the same exception, and when it succeeds the method
  returns the number of rows of the frame.  The store is the one the write left.
\<close>

theorem load_nonempty:
  assumes "\<not> is_empty df"
  shows "load_stocks to_sql df db =
           (case to_sql ''stocks'' df db of
              (Some e, db') \<Rightarrow> (Inl e, db') | (None, db') \<Rightarrow> (Inr (length (rows df)), db')) \<and>
         load_crypto to_sql df db =
           (case to_sql ''crypto'' df db of
              (Some e, db') \<Rightarrow> (Inl e, db') | (None, db') \<Rightarrow> (Inr (length (rows df)), db')) \<and>
         load_forex to_sql df db =
           (case to_sql ''forex'' df db of
              (Some e, db') \<Rightarrow> (Inl e, db') | (None, db') \<Rightarrow> (Inr (length (rows df)), db'))"
  using assms
  by (simp add: load_stocks_def load_crypto_def load_forex_def split: prod.splits option.splits)

theorem load_nonempty_witness:
  "\<not> is_empty \<lparr>columns = [''symbol''], rows = [''AAPL'', ''MSFT'']\<rparr> \<and>
   fst (load_stocks sample_to_sql \<lparr>columns = [''symbol''], rows = [''AAPL'', ''MSFT'']\<rparr> (\<lambda>t. 0)) = Inr 2 \<and>
   fst (load_crypto sample_to_sql \<lparr>columns = [''symbol''], rows = [''AAPL'', ''MSFT'']\<rparr> (\<lambda>t. 0)) = Inr 2 \<and>
   fst (load_forex sample_to_sql \<lparr>columns = [''symbol''], rows = [''AAPL'', ''MSFT'']\<rparr> (\<lambda>t. 0)) = Inl ''disk full''"
proof -
  have ne: "\<not> is_empty \<lparr>columns = [''symbol''], rows = [''AAPL'', ''MSFT'']\<rparr>"
    by (simp add: is_empty_def)
  from load_nonempty [OF ne, of sample_to_sql "\<lambda>t. 0"] ne show ?thesis
    by (simp add: sample_to_sql_def)
qed

text \<open>
  C7: on an empty frame each load method returns 0 and leaves the store as it was,
  whatever the write would have done: the write is not performed.
\<close>

theorem load_empty:
  assumes "is_empty df"
  shows "load_stocks to_sql df db = (Inr 0, db) \<and>
         load_crypto to_sql df db = (Inr 0, db) \<and>
         load_forex to_sql df db = (Inr 0, db)"
  using assms by (simp add: load_stocks_def load_crypto_def load_forex_def)

theorem load_empty_witness:
  "is_empty (\<lparr>columns = [''symbol''], rows = []\<rparr> :: string frame) \<and>
   load_stocks sample_to_sql \<lparr>columns = [''symbol''], rows = [] :: string list\<rparr> (\<lambda>t. 7) = (Inr 0, \<lambda>t. 7) \<and>
   load_crypto sample_to_sql \<lparr>columns = [''symbol''], rows = [] :: string list\<rparr> (\<lambda>t. 7) = (Inr 0, \<lambda>t. 7) \<and>
   load_forex sample_to_sql \<lparr>columns = [''symbol''], rows = [] :: string list\<rparr> (\<lambda>t. 7) = (Inr 0, \<lambda>t. 7)"
proof -
  have e: "is_empty (\<lparr>columns = [''symbol''], rows = []\<rparr> :: string frame)"
    by (simp add: is_empty_def)
  from load_empty [OF e, of sample_to_sql "\<lambda>t. 7"] e show ?thesis
    by simp
qed

section \<open>The transformers and the clock\<close>

text \<open>One entry of a loop depends on the clock in its two time cells only.\<close>

lemma stock_record_clock:
  "map_sum id sr_untimed (stock_record L now1 k1 s q) =
   map_sum id sr_untimed (stock_record L now2 k2 s q)"
  unfolding stock_record_def
  by (intro exc_bind_cong_map) (simp add: sr_untimed_def)

lemma crypto_record_clock:
  "map_sum id cr_untimed (crypto_record L now1 k1 c) =
   map_sum id cr_untimed (crypto_record L now2 k2 c)"
proof -
  have d: "map_sum id cr_untimed (crypto_detailed L now1 k1 c) =
           map_sum id cr_untimed (crypto_detailed L now2 k2 c)"
    unfolding crypto_detailed_def
    by (intro exc_bind_cong_map) (simp add: cr_untimed_def)
  have s: "map_sum id cr_untimed (crypto_simple L now1 k1 c) =
           map_sum id cr_untimed (crypto_simple L now2 k2 c)"
    unfolding crypto_simple_def Let_def
    by (intro exc_bind_cong_map) (simp add: cr_untimed_def)
  from d s show ?thesis by (simp add: crypto_record_def)
qed

lemma forex_record_clock:
  "map_sum id fx_untimed (forex_record L now1 k1 b d t x) =
   map_sum id fx_untimed (forex_record L now2 k2 b d t x)"
  unfolding forex_record_def
  by (intro exc_bind_cong_map) (simp add: fx_untimed_def)

text \<open>The loops: the same exception, or lists of entries equal up to the time cells.\<close>

lemma stocks_loop_clock:
  "map sr_untimed acc1 = map sr_untimed acc2 \<Longrightarrow>
   map_sum id (map sr_untimed) (stocks_loop L now1 k1 xs acc1) =
   map_sum id (map sr_untimed) (stocks_loop L now2 k2 xs acc2)"
proof (induction xs arbitrary: k1 k2 acc1 acc2)
  case Nil
  then show ?case by simp
next
  case (Cons stock rest)
  show ?case
  proof (cases "dict_item stock ''symbol''")
    case (Inl e)
    then show ?thesis by simp
  next
    case sym: (Inr symbol)
    show ?thesis
    proof (cases "dict_item stock ''data''")
      case (Inl e)
      with sym show ?thesis by simp
    next
      case dat: (Inr quote)
      from stock_record_clock [of L now1 k1 symbol quote now2 k2] show ?thesis
      proof (cases rule: rel_step)
        case (raise e)
        with sym dat Cons.IH [OF Cons.prems] show ?thesis by simp
      next
        case (ok x y)
        with Cons.prems have "map sr_untimed (acc1 @ [x]) = map sr_untimed (acc2 @ [y])"
          by simp
        from Cons.IH [OF this] ok sym dat show ?thesis by simp
      qed
    qed
  qed
qed

lemma crypto_loop_clock:
  "map cr_untimed acc1 = map cr_untimed acc2 \<Longrightarrow>
   map_sum id (map cr_untimed) (crypto_loop L now1 k1 xs acc1) =
   map_sum id (map cr_untimed) (crypto_loop L now2 k2 xs acc2)"
proof (induction xs arbitrary: k1 k2 acc1 acc2)
  case Nil
  then show ?case by simp
next
  case (Cons crypto rest)
  from crypto_record_clock [of L now1 k1 crypto now2 k2] show ?case
  proof (cases rule: rel_step)
    case (raise e)
    with Cons.IH [OF Cons.prems] show ?thesis by simp
  next
    case (ok x y)
    with Cons.prems have "map cr_untimed (acc1 @ [x]) = map cr_untimed (acc2 @ [y])"
      by simp
    from Cons.IH [OF this] ok show ?thesis by simp
  qed
qed

lemma forex_loop_clock:
  "map fx_untimed acc1 = map fx_untimed acc2 \<Longrightarrow>
   map_sum id (map fx_untimed) (forex_loop L now1 k1 b d xs acc1) =
   map_sum id (map fx_untimed) (forex_loop L now2 k2 b d xs acc2)"
proof (induction xs arbitrary: k1 k2 acc1 acc2)
  case Nil
  then show ?case by simp
next
  case (Cons item rest)
  obtain t x where item: "item = (t, x)" by (cases item)
  from forex_record_clock [of L now1 k1 b d t x now2 k2] show ?case
  proof (cases rule: rel_step)
    case (raise e)
    with item Cons.IH [OF Cons.prems] show ?thesis by simp
  next
    case (ok r1 r2)
    with Cons.prems have "map fx_untimed (acc1 @ [r1]) = map fx_untimed (acc2 @ [r2])"
      by simp
    from Cons.IH [OF this] ok item show ?thesis by simp
  qed
qed

text \<open>The quality passes neither read nor write the time cells.\<close>

lemma stock_pass_untimed:
  "map st_untimed (map (stock_final L cast) (filter stock_keep xs)) =
   map (\<lambda>r. st_untimed (stock_final L cast r)) (filter stock_keep (map sr_untimed xs))"
  by (induction xs) (simp_all add: stock_keep_def stock_final_def st_untimed_def sr_untimed_def)

lemma stock_pass_clock:
  assumes "map sr_untimed a = map sr_untimed b"
  shows "map st_untimed (map (stock_final L cast) (filter stock_keep a)) =
         map st_untimed (map (stock_final L cast) (filter stock_keep b))"
  by (simp only: stock_pass_untimed assms)

text \<open>Nor does the cast of the volume column: it sees the same cells.\<close>

lemma stock_volume_untimed:
  "map sr_volume xs = map sr_volume (map sr_untimed xs)"
  "map sr_volume (filter stock_keep xs) = map sr_volume (filter stock_keep (map sr_untimed xs))"
  by (induction xs) (simp_all add: stock_keep_def sr_untimed_def)

lemma stock_volume_clock:
  assumes "map sr_untimed a = map sr_untimed b"
  shows "astype_int L (map sr_volume a) (map sr_volume (filter stock_keep a)) =
         astype_int L (map sr_volume b) (map sr_volume (filter stock_keep b))"
  using stock_volume_untimed [of a] stock_volume_untimed [of b] by (simp only: assms)

lemma crypto_pass_untimed:
  "map cr_untimed (map crypto_final (filter crypto_keep xs)) =
   map (\<lambda>r. cr_untimed (crypto_final r)) (filter crypto_keep (map cr_untimed xs))"
  by (induction xs) (simp_all add: crypto_keep_def crypto_final_def cr_untimed_def)

lemma crypto_pass_clock:
  assumes "map cr_untimed a = map cr_untimed b"
  shows "map cr_untimed (map crypto_final (filter crypto_keep a)) =
         map cr_untimed (map crypto_final (filter crypto_keep b))"
  by (simp only: crypto_pass_untimed assms)

lemma forex_pass_untimed:
  "map fx_untimed (filter forex_keep xs) =
   map fx_untimed (filter forex_keep (map fx_untimed xs))"
  by (induction xs) (simp_all add: forex_keep_def fx_untimed_def)

lemma forex_pass_clock:
  assumes "map fx_untimed a = map fx_untimed b"
  shows "map fx_untimed (filter forex_keep a) = map fx_untimed (filter forex_keep b)"
  using forex_pass_untimed [of a] forex_pass_untimed [of b] by (simp only: assms)

lemma stocks_transform_clock:
  "untimed st_untimed (stocks_transform L now1 x) = untimed st_untimed (stocks_transform L now2 x)"
proof (cases x)
  case None
  then show ?thesis by (simp add: stocks_transform_def)
next
  case (Some xs)
  have "map sr_untimed [] = map sr_untimed []" by simp
  from stocks_loop_clock [OF this, of L now1 0 xs now2 0] show ?thesis
  proof (cases rule: rel_step)
    case (raise e)
    with Some show ?thesis by (simp add: stocks_transform_def)
  next
    case (ok a b)
    from ok(3) have nil: "a = [] \<longleftrightarrow> b = []" by (rule map_eq_Nil_iff)
    show ?thesis
    proof (cases "astype_int L (map sr_volume a) (map sr_volume (filter stock_keep a))")
      case (Inl e)
      with stock_volume_clock [OF ok(3), of L]
      have "astype_int L (map sr_volume b) (map sr_volume (filter stock_keep b)) = Inl e"
        by simp
      with Inl ok(1,2) Some nil show ?thesis
        by (simp add: stocks_transform_def untimed_def DataFrame_def is_empty_def stock_columns_def)
    next
      case (Inr cast)
      with stock_volume_clock [OF ok(3), of L]
      have "astype_int L (map sr_volume b) (map sr_volume (filter stock_keep b)) = Inr cast"
        by simp
      with Inr ok(1,2) Some nil stock_pass_clock [OF ok(3), of L cast] show ?thesis
        by (simp add: stocks_transform_def untimed_def DataFrame_def is_empty_def stock_columns_def)
    qed
  qed
qed

lemma crypto_transform_clock:
  "untimed cr_untimed (crypto_transform L now1 x) = untimed cr_untimed (crypto_transform L now2 x)"
proof (cases x)
  case None
  then show ?thesis by (simp add: crypto_transform_def)
next
  case (Some xs)
  have "map cr_untimed [] = map cr_untimed []" by simp
  from crypto_loop_clock [OF this, of L now1 0 xs now2 0] show ?thesis
  proof (cases rule: rel_step)
    case (raise e)
    with Some show ?thesis by (simp add: crypto_transform_def)
  next
    case (ok a b)
    from ok(3) have "a = [] \<longleftrightarrow> b = []" by (rule map_eq_Nil_iff)
    with ok(1,2) Some crypto_pass_clock [OF ok(3)] show ?thesis
      by (simp add: crypto_transform_def untimed_def DataFrame_def is_empty_def crypto_columns_def)
  qed
qed

lemma forex_transform_clock:
  "untimed fx_untimed (forex_transform L now1 x) = untimed fx_untimed (forex_transform L now2 x)"
proof (cases x)
  case None
  then show ?thesis by (simp add: forex_transform_def)
next
  case (Some fd)
  show ?thesis
  proof (cases "fd = [] \<or> map_of fd ''rates'' = None")
    case True
    with Some show ?thesis by (auto simp add: forex_transform_def)
  next
    case nonempty: False
    then obtain rv where False: "fd \<noteq> []" "map_of fd ''rates'' = Some rv" by auto
    show ?thesis
    proof (cases "dict_item fd ''base''")
      case (Inl e)
      with Some False show ?thesis by (simp add: forex_transform_def)
    next
      case base: (Inr b)
      show ?thesis
      proof (cases "exc_bind (dict_item fd ''rates'') json_items")
        case (Inl e)
        with Some False base show ?thesis
          by (cases "dict_item fd ''rates''") (simp_all add: forex_transform_def)
      next
        case (Inr items)
        then obtain rates where r: "dict_item fd ''rates'' = Inr rates" "json_items rates = Inr items"
          by (cases "dict_item fd ''rates''") simp_all
        have "map fx_untimed [] = map fx_untimed []" by simp
        from forex_loop_clock [OF this, of L now1 0 b "dict_get fd ''date'' JNull" items now2 0]
        show ?thesis
        proof (cases rule: rel_step)
          case (raise e)
          with Some False base r show ?thesis by (simp add: forex_transform_def)
        next
          case (ok a c)
          from ok(3) have "a = [] \<longleftrightarrow> c = []" by (rule map_eq_Nil_iff)
          with ok(1,2) Some False base r forex_pass_clock [OF ok(3)] show ?thesis
            by (simp add: forex_transform_def untimed_def DataFrame_def is_empty_def forex_columns_def)
        qed
      qed
    qed
  qed
qed

text \<open>
  C8, as the code has it: the result of a transformer is a function of the raw
  records and of the clock readings, and the clock shows in the \<open>timestamp\<close> and
  \<open>extracted_at\<close> cells only.  Two applications to the same records raise the same
  exception, or return frames with the same columns and with rows that are equal, one
  by one, up to these two cells.
\<close>

theorem transform_same_up_to_clock:
  "untimed st_untimed (stocks_transform L now1 xs) = untimed st_untimed (stocks_transform L now2 xs) \<and>
   untimed cr_untimed (crypto_transform L now1 ys) = untimed cr_untimed (crypto_transform L now2 ys) \<and>
   untimed fx_untimed (forex_transform L now1 zs) = untimed fx_untimed (forex_transform L now2 zs)"
  by (simp only: stocks_transform_clock [of L now1 xs now2] crypto_transform_clock [of L now1 ys now2]
      forex_transform_clock [of L now1 zs now2])

text \<open>A record of the simple shape that has an id and nothing else, evaluated.\<close>

lemma upper_bitcoin: "str_upper sample_lib ''bitcoin'' = ''BITCOIN''"
  unfolding sample_lib_def by (simp only: pylib.simps) code_simp

lemma capitalize_bitcoin: "str_capitalize sample_lib ''bitcoin'' = ''Bitcoin''"
  unfolding sample_lib_def by (simp only: pylib.simps) code_simp

lemma crypto_transform_id_only:
  "crypto_transform sample_lib now (Some [[(''id'', JStr ''bitcoin'')]]) =
     Inr \<lparr>columns = crypto_columns,
          rows = [\<lparr>cr_symbol = ''BITCOIN'', cr_name = JStr ''Bitcoin'',
                   cr_current_price = Finite 0, cr_market_cap = Finite 0,
                   cr_total_volume = Finite 0, cr_price_change_24h = Finite 0,
                   cr_timestamp = now 0, cr_extracted_at = now 1\<rparr>]\<rparr>"
  by (simp add: crypto_transform_def crypto_record_def crypto_simple_def get2_def dict_get_def
      upper_bitcoin capitalize_bitcoin DataFrame_def is_empty_def crypto_columns_def
      crypto_keep_def crypto_final_def fillna0_def)

text \<open>
  C8 as stated fails: the transformers read the system clock, and two applications
  to the same records at different times return different frames.
\<close>

theorem transform_depends_on_clock:
  "crypto_transform sample_lib (clock_from 0) (Some [[(''id'', JStr ''bitcoin'')]]) \<noteq>
   crypto_transform sample_lib (clock_from 1) (Some [[(''id'', JStr ''bitcoin'')]])"
  by (simp add: crypto_transform_id_only clock_from_def)

section \<open>ForexExtractor.extract_exchange_rates\<close>

text \<open>The comprehension over a dict of rates: it never raises.\<close>

lemma filter_rates_dict:
  "\<exists>out. filter_rates (JDict rates) targets acc = Inr out \<and>
     fst ` set out = fst ` set acc \<union> (set targets \<inter> fst ` set rates) \<and>
     (distinct (map fst acc) \<longrightarrow> distinct (map fst out)) \<and>
     (\<forall>c. map_of out c =
        (if c \<in> set targets \<and> c \<in> fst ` set rates then map_of rates c else map_of acc c))"
proof (induction targets arbitrary: acc)
  case Nil
  then show ?case by simp
next
  case (Cons c rest)
  show ?case
  proof (cases "map_of rates c")
    case None
    then have "c \<notin> fst ` set rates" by (simp add: map_of_eq_None_iff)
    with None Cons.IH [of acc] show ?thesis by auto
  next
    case (Some v)
    then have in_r: "c \<in> fst ` set rates" by (metis map_of_eq_None_iff option.distinct(1))
    from Cons.IH [of "AList.update c v acc"] obtain out where
      out: "filter_rates (JDict rates) rest (AList.update c v acc) = Inr out"
        "fst ` set out = fst ` set (AList.update c v acc) \<union> (set rest \<inter> fst ` set rates)"
        "distinct (map fst (AList.update c v acc)) \<longrightarrow> distinct (map fst out)"
        "\<forall>c'. map_of out c' =
           (if c' \<in> set rest \<and> c' \<in> fst ` set rates then map_of rates c'
            else map_of (AList.update c v acc) c')"
      by blast
    from Some out(1) have 1: "filter_rates (JDict rates) (c # rest) acc = Inr out"
      by (simp add: dict_get_def)
    from out(2) in_r have 2: "fst ` set out = fst ` set acc \<union> (set (c # rest) \<inter> fst ` set rates)"
      by (auto simp add: AList.dom_update)
    from out(3) have 3: "distinct (map fst acc) \<longrightarrow> distinct (map fst out)"
      by (simp add: AList.distinct_update)
    from out(4) Some in_r have 4: "\<forall>c'. map_of out c' =
        (if c' \<in> set (c # rest) \<and> c' \<in> fst ` set rates then map_of rates c' else map_of acc c')"
      by (auto simp add: AList.update_conv')
    from 1 2 3 4 show ?thesis by blast
  qed
qed

text \<open>
  C4: when the provider's answer has a \<open>rates\<close> mapping, the extractor returns
  a result, and the keys of its \<open>rates\<close> are exactly the requested currencies
  that the provider's mapping has, each once and with the provider's rate; a requested
  currency the provider does not have is left out and nothing is raised.
\<close>

theorem forex_extract_filters:
  assumes "get base_currency = Some data"
    and "map_of data ''rates'' = Some (JDict rates)"
  shows "\<exists>filtered.
           extract_exchange_rates get base_currency target_currencies =
             Inr (Some [(''base'', JStr base_currency),
                        (''date'', dict_get data ''date'' JNull),
                        (''rates'', JDict filtered)]) \<and>
           fst ` set filtered = set target_currencies \<inter> fst ` set rates \<and>
           distinct (map fst filtered) \<and>
           (\<forall>c \<in> set target_currencies \<inter> fst ` set rates. map_of filtered c = map_of rates c)"
proof -
  from filter_rates_dict [of rates target_currencies "[]"] obtain out where
    out: "filter_rates (JDict rates) target_currencies [] = Inr out"
      "fst ` set out = set target_currencies \<inter> fst ` set rates"
      "distinct (map fst out)"
      "\<forall>c. map_of out c =
         (if c \<in> set target_currencies \<and> c \<in> fst ` set rates then map_of rates c else None)"
    by auto
  from assms out(1) have "extract_exchange_rates get base_currency target_currencies =
      Inr (Some [(''base'', JStr base_currency), (''date'', dict_get data ''date'' JNull),
                 (''rates'', JDict out)])"
    by (simp add: extract_exchange_rates_def)
  with out(2,3,4) show ?thesis by auto
qed

text \<open>The example of the specification: EUR and XXX requested, EUR known.\<close>

theorem forex_extract_filters_witness:
  "sample_forex_get ''USD'' =
     Some [(''base'', JStr ''USD''), (''date'', JStr ''2024-01-15''),
           (''rates'', JDict [(''EUR'', JFloat (Finite (92 / 100)))])] \<and>
   extract_exchange_rates sample_forex_get ''USD'' [''EUR'', ''XXX''] =
     Inr (Some [(''base'', JStr ''USD''), (''date'', JStr ''2024-01-15''),
                (''rates'', JDict [(''EUR'', JFloat (Finite (92 / 100)))])])"
proof -
  have g: "sample_forex_get ''USD'' =
     Some [(''base'', JStr ''USD''), (''date'', JStr ''2024-01-15''),
           (''rates'', JDict [(''EUR'', JFloat (Finite (92 / 100)))])]"
    by (simp add: sample_forex_get_def)
  have r: "map_of [(''base'', JStr ''USD''), (''date'', JStr ''2024-01-15''),
           (''rates'', JDict [(''EUR'', JFloat (Finite (92 / 100)))])] ''rates'' =
        Some (JDict [(''EUR'', JFloat (Finite (92 / 100)))])"
    by simp
  from forex_extract_filters [where get = sample_forex_get and base_currency = "''USD''"
      and target_currencies = "[''EUR'', ''XXX'']", OF g r] g show ?thesis
    by (simp add: extract_exchange_rates_def dict_get_def)
qed

section \<open>StocksExtractor.extract_multiple_stocks\<close>

text \<open>
  The schedule: its fetches, its length, its pauses.
\<close>

lemma paced_Cons: "paced d (s # rest) = Fetch s # (if rest = [] then [] else Sleep d # paced d rest)"
  by (cases rest) simp_all


lemma length_paced: "length (paced d xs) = 2 * length xs - 1"
  by (induction d xs rule: paced.induct) simp_all





text \<open>
  One call of \<open>extract_stock_price\<close> adds one fetch.  What it returns is read off
  the provider's answer: a quote tagged with the requested symbol when the answer has a
  \<open>Global Quote\<close> that is not empty, and nothing otherwise.
\<close>

lemma extract_stock_price_trace: "snd (extract_stock_price api_key get symbol tr) = tr @ [Fetch symbol]"
  by (simp add: extract_stock_price_def Let_def split: option.splits)


lemma extract_stock_price_Some:
  "fst (extract_stock_price api_key get symbol tr) = Some q \<Longrightarrow>
   q \<noteq> [] \<and> map_of q ''symbol'' = Some (JStr symbol)"
  by (auto simp add: extract_stock_price_def Let_def split: option.splits if_splits)

lemma map_filter_upt_Suc:
  "List.map_filter f [0..<Suc n] =
     (case f 0 of None \<Rightarrow> [] | Some y \<Rightarrow> [y]) @ List.map_filter (\<lambda>j. f (Suc j)) [0..<n]"
proof -
  have "[0..<Suc n] = 0 # map Suc [0..<n]"
    by (simp add: upt_conv_Cons map_Suc_upt del: upt_Suc)
  then show ?thesis
    by (simp add: List.map_filter_def comp_def filter_map split: option.splits del: upt_Suc)
qed


text \<open>
  The loop, started at index \<open>i\<close> with \<open>rest\<close> still to fetch, when
  \<open>time.sleep\<close> accepts the delay or is not called: it returns, it adds the schedule
  of \<open>rest\<close>, and it appends the quote of every symbol whose fetch gave one, each
  fetch answered after the events that precede it.
\<close>

lemma extract_loop_run:
  assumes "time_sleep delay = None \<or> length rest \<le> 1"
  shows "i + length rest = n \<Longrightarrow>
    extract_loop api_key get delay n i rest results tr =
      (Inr (results @ List.map_filter
              (\<lambda>j. fst (extract_stock_price api_key get (rest ! j) (tr @ take (2 * j) (paced delay rest))))
              [0..<length rest]),
       tr @ paced delay rest)"
  using assms
proof (induction rest arbitrary: i results tr)
  case Nil
  then show ?case by (simp add: List.map_filter_def)
next
  case (Cons s rest)
  define F where "F = (\<lambda>xs t. List.map_filter
      (\<lambda>j. fst (extract_stock_price api_key get (xs ! j) (t @ take (2 * j) (paced delay xs))))
      [0..<length xs])"
  obtain data where data: "extract_stock_price api_key get s tr = (data, tr @ [Fetch s])"
    using extract_stock_price_trace [of api_key get s tr]
    by (cases "extract_stock_price api_key get s tr") simp
  define one where "one = (case data of None \<Rightarrow> [] | Some q \<Rightarrow> [q])"
  have r1: "(case data of Some d \<Rightarrow> if d \<noteq> [] then results @ [d] else results | None \<Rightarrow> results) =
      results @ one"
    using extract_stock_price_Some [of api_key get s tr] data
    by (auto simp add: one_def split: option.splits)
  have mf: "F (s # rest) tr = one @ List.map_filter
      (\<lambda>j. fst (extract_stock_price api_key get ((s # rest) ! Suc j)
                  (tr @ take (2 * Suc j) (paced delay (s # rest))))) [0..<length rest]"
    unfolding F_def one_def
    using map_filter_upt_Suc [of "\<lambda>j. fst (extract_stock_price api_key get ((s # rest) ! j)
        (tr @ take (2 * j) (paced delay (s # rest))))" "length rest"] data
    by (simp del: upt_Suc)
  show ?case
  proof (cases "rest = []")
    case True
    with Cons.prems have "\<not> int i < int n - 1" by simp
    with True data r1 have "extract_loop api_key get delay n i (s # rest) results tr =
        (Inr (results @ one), tr @ [Fetch s])"
      by simp
    moreover from True mf have "F (s # rest) tr = one"
      by (simp add: List.map_filter_def)
    ultimately show ?thesis using True by (simp add: F_def)
  next
    case False
    with Cons.prems have lt: "int i < int n - 1" by (cases rest) auto
    from False Cons.prems(2) have ok: "time_sleep delay = None" by (cases rest) auto
    from Cons.prems have "Suc i + length rest = n" by simp
    from Cons.IH [OF this, of "results @ one" "tr @ [Fetch s, Sleep delay]"] ok
    have IH: "extract_loop api_key get delay n (Suc i) rest (results @ one) (tr @ [Fetch s, Sleep delay]) =
      (Inr ((results @ one) @ F rest (tr @ [Fetch s, Sleep delay])),
       (tr @ [Fetch s, Sleep delay]) @ paced delay rest)"
      by (simp add: F_def)
    from lt ok data r1 have unfold: "extract_loop api_key get delay n i (s # rest) results tr =
        extract_loop api_key get delay n (Suc i) rest (results @ one) (tr @ [Fetch s, Sleep delay])"
      by simp
    from False have pc: "paced delay (s # rest) = Fetch s # Sleep delay # paced delay rest"
      by (simp add: paced_Cons)
    have shift: "F (s # rest) tr = one @ F rest (tr @ [Fetch s, Sleep delay])"
      unfolding mf by (simp add: F_def pc)
    have "extract_loop api_key get delay n i (s # rest) results tr =
        (Inr (results @ F (s # rest) tr), tr @ paced delay (s # rest))"
      unfolding unfold IH shift pc by simp
    then show ?thesis by (simp add: F_def)
  qed
qed

text \<open>
  With two symbols or more to fetch and a delay that \<open>time.sleep\<close> rejects, the
  loop leaves after the first fetch with the exception of \<open>time.sleep\<close>.
\<close>

lemma extract_loop_raise:
  assumes "time_sleep delay = Some e" and "i + length (s # t # rest) = n"
  shows "extract_loop api_key get delay n i (s # t # rest) results tr = (Inl e, tr @ [Fetch s])"
proof -
  obtain data where data: "extract_stock_price api_key get s tr = (data, tr @ [Fetch s])"
    using extract_stock_price_trace [of api_key get s tr]
    by (cases "extract_stock_price api_key get s tr") simp
  from assms(2) have "int i < int n - 1" by auto
  with data assms(1) show ?thesis by simp
qed

text \<open>
  Keeping the defined values of a function over a list keeps the order of the list.
\<close>

lemma subseq_map_filter:
  assumes "\<And>x y. f x = Some y \<Longrightarrow> h y = g x"
  shows "subseq (map h (List.map_filter f xs)) (map g xs)"
proof (induction xs)
  case Nil
  then show ?case by (simp add: List.map_filter_simps)
next
  case (Cons x xs)
  show ?case
  proof (cases "f x")
    case None
    with Cons show ?thesis by (auto simp add: List.map_filter_simps intro: list_emb_Cons)
  next
    case (Some y)
    with assms have "h y = g x" by simp
    with Some Cons show ?thesis by (simp add: List.map_filter_simps)
  qed
qed

lemma length_map_filter_le: "length (List.map_filter f xs) \<le> length xs"
  by (simp add: List.map_filter_def)




text \<open>
  C9: the method returns a list, or raises the exception of \<open>time.sleep\<close> when
  there are two symbols or more (the argument \<open>delay\<close> may be omitted).  A list it
  returns is no longer than the list of symbols, and the symbols its quotes are tagged
  with form a subsequence of the requested symbols, in their order.
\<close>

theorem extract_multiple_stocks_subseq:
  "case extract_multiple_stocks api_key get symbols delay_arg tr of
     (Inr results, tr') \<Rightarrow>
       length results \<le> length symbols \<and>
       subseq (map (\<lambda>q. map_of q ''symbol'') results) (map (\<lambda>s. Some (JStr s)) symbols)
   | (Inl e, tr') \<Rightarrow>
       time_sleep (case delay_arg of None \<Rightarrow> 12 | Some d \<Rightarrow> d) = Some e \<and> 2 \<le> length symbols"
proof -
  define delay where "delay = (case delay_arg of None \<Rightarrow> (12::int) | Some d \<Rightarrow> d)"
  have start: "0 + length symbols = length symbols" by simp
  show ?thesis
  proof (cases "time_sleep delay = None \<or> length symbols \<le> 1")
    case True
    define f where "f = (\<lambda>j. fst (extract_stock_price api_key get (symbols ! j)
        (tr @ take (2 * j) (paced delay symbols))))"
    from extract_loop_run [OF True start, of api_key get "[]" tr]
    have run: "extract_multiple_stocks api_key get symbols delay_arg tr =
        (Inr (List.map_filter f [0..<length symbols]), tr @ paced delay symbols)"
      by (simp add: extract_multiple_stocks_def f_def delay_def)
    have tag: "\<And>j q. f j = Some q \<Longrightarrow> map_of q ''symbol'' = Some (JStr (symbols ! j))"
      unfolding f_def using extract_stock_price_Some by blast
    have "subseq (map (\<lambda>q. map_of q ''symbol'') (List.map_filter f [0..<length symbols]))
        (map (\<lambda>j. Some (JStr (symbols ! j))) [0..<length symbols])"
      by (rule subseq_map_filter) (rule tag)
    moreover have "map (\<lambda>j. Some (JStr (symbols ! j))) [0..<length symbols] =
        map (\<lambda>s. Some (JStr s)) symbols"
    proof -
      have "map (\<lambda>j. Some (JStr (symbols ! j))) [0..<length symbols] =
          map (\<lambda>s. Some (JStr s)) (map ((!) symbols) [0..<length symbols])"
        by (simp only: map_map comp_def)
      then show ?thesis by (simp only: map_nth)
    qed
    moreover have "length (List.map_filter f [0..<length symbols]) \<le> length symbols"
      using length_map_filter_le [of f "[0..<length symbols]"] by simp
    ultimately show ?thesis using run by simp
  next
    case False
    then obtain e where e: "time_sleep delay = Some e" and two: "2 \<le> length symbols"
      by auto
    from two obtain s t rest where sym: "symbols = s # t # rest"
      by (cases symbols; cases "tl symbols") auto
    from e have "extract_loop api_key get delay (length (s # t # rest)) 0 (s # t # rest) [] tr =
        (Inl e, tr @ [Fetch s])"
      by (rule extract_loop_raise) simp
    with sym e two show ?thesis
      by (simp add: extract_multiple_stocks_def delay_def)
  qed
qed

text \<open>
  Four symbols, of which the second and the fourth have a quote; and two symbols with
  a delay beyond what \<open>time.sleep\<close> converts.
\<close>

theorem extract_multiple_stocks_subseq_witness:
  "fst (extract_multiple_stocks ''key'' sample_stocks_get [''MSFT'', ''AAPL'', ''TSLA'', ''AAPL''] (Some 5) []) =
     Inr [[(''symbol'', JStr ''AAPL''), (''data'', JDict [(''05. price'', JStr ''150.00'')])],
          [(''symbol'', JStr ''AAPL''), (''data'', JDict [(''05. price'', JStr ''150.00'')])]] \<and>
   subseq [Some (JStr ''AAPL''), Some (JStr ''AAPL'')]
     [Some (JStr ''MSFT''), Some (JStr ''AAPL''), Some (JStr ''TSLA''), Some (JStr ''AAPL'')] \<and>
   extract_multiple_stocks ''key'' sample_stocks_get [''AAPL'', ''MSFT''] (Some 10000000000) [] =
     (Inl OverflowError, [Fetch ''AAPL''])"
proof -
  have run: "extract_multiple_stocks ''key'' sample_stocks_get [''MSFT'', ''AAPL'', ''TSLA'', ''AAPL''] (Some 5) [] =
     (Inr [[(''symbol'', JStr ''AAPL''), (''data'', JDict [(''05. price'', JStr ''150.00'')])],
           [(''symbol'', JStr ''AAPL''), (''data'', JDict [(''05. price'', JStr ''150.00'')])]],
      [Fetch ''MSFT'', Sleep 5, Fetch ''AAPL'', Sleep 5, Fetch ''TSLA'', Sleep 5, Fetch ''AAPL''])"
    by (simp add: extract_multiple_stocks_def extract_stock_price_def sample_stocks_get_def
        quote_params_def time_sleep_def)
  have big: "extract_multiple_stocks ''key'' sample_stocks_get [''AAPL'', ''MSFT''] (Some 10000000000) [] =
     (Inl OverflowError, [Fetch ''AAPL''])"
    by (simp add: extract_multiple_stocks_def extract_stock_price_def sample_stocks_get_def
        quote_params_def time_sleep_def)
  from extract_multiple_stocks_subseq [where api_key = "''key''" and get = sample_stocks_get
      and symbols = "[''MSFT'', ''AAPL'', ''TSLA'', ''AAPL'']" and delay_arg = "Some 5" and tr = "[]"]
    run big
  show ?thesis by simp
qed

section \<open>Rows and records\<close>





section \<open>StocksTransformer: the change percent\<close>










end
